theory Spec2Isabelle
  imports Main "HOL-Library.AList"
begin

section \<open>Annotations (waveapi/blip.py, class Annotation)\<close>

text \<open>
  An annotation is a key/value pair over a range of the content. The four private
  attributes \<open>_name\<close>, \<open>_value\<close>, \<open>_start\<close>, \<open>_end\<close> become the fields of a record;
  Python's unbounded integers are \<open>int\<close>. The constructor stores its arguments in the
  order \<open>(name, value, start, end)\<close> and checks nothing.
\<close>

record annotation =
  ann_name :: string
  ann_value :: string
  ann_start :: int
  ann_end :: int

definition Annotation :: "string \<Rightarrow> string \<Rightarrow> int \<Rightarrow> int \<Rightarrow> annotation" where
  "Annotation name value start end =
     \<lparr>ann_name = name, ann_value = value, ann_start = start, ann_end = end\<rparr>"

text \<open>
  \<open>Annotation._shift\<close> (lines 51-56): two independent tests, both strict; the second
  reads \<open>_end\<close>, which the first assignment does not touch.
\<close>

definition Annotation_shift :: "annotation \<Rightarrow> int \<Rightarrow> int \<Rightarrow> annotation" where
  "Annotation_shift a where inc =
     (let a1 = (if ann_start a > where then a\<lparr>ann_start := ann_start a + inc\<rparr> else a)
      in (if ann_end a1 > where then a1\<lparr>ann_end := ann_end a1 + inc\<rparr> else a1))"

section \<open>The annotation store (class Annotations)\<close>

text \<open>
  \<open>_store\<close> is a dict from a name to the list of annotations of that name: a map
  into lists, since \<open>_add_internal\<close> and \<open>_delete_internal\<close> build the new list by
  appending in the order of the old one.
\<close>

type_synonym store = "string \<rightharpoonup> annotation list"

text \<open>
  The loop of \<open>_add_internal\<close> (lines 83-98). It threads \<open>new_list\<close> and the two
  variables \<open>start\<close> and \<open>end\<close>, which the merge branch reassigns, so later iterations
  compare against the widened range. The right remainder is built at lines 97-98 as
  \<open>Annotation(existing.name, existing.value, existing.end, end)\<close>.
\<close>

fun add_loop ::
  "annotation list \<Rightarrow> string \<Rightarrow> int \<Rightarrow> int \<Rightarrow> annotation list \<Rightarrow> annotation list \<times> int \<times> int"
where
  "add_loop [] value start end new_list = (new_list, start, end)"
| "add_loop (existing # rest) value start end new_list =
     (if start > ann_end existing \<or> end < ann_start existing
      then add_loop rest value start end (new_list @ [existing])
      else if ann_value existing = value
      then add_loop rest value (min (ann_start existing) start) (max (ann_end existing) end) new_list
      else
        (let new_list1 =
               (if ann_start existing < start
                then new_list @ [Annotation (ann_name existing) (ann_value existing)
                                            (ann_start existing) start]
                else new_list);
             new_list2 =
               (if ann_end existing > end
                then new_list1 @ [Annotation (ann_name existing) (ann_value existing)
                                             (ann_end existing) end]
                else new_list1)
         in add_loop rest value start end new_list2))"

definition add_internal :: "store \<Rightarrow> string \<Rightarrow> string \<Rightarrow> int \<Rightarrow> int \<Rightarrow> store" where
  "add_internal store name value start end =
     (case store name of
        Some existing_list \<Rightarrow>
          (case add_loop existing_list value start end [] of
             (new_list, start', end') \<Rightarrow>
               store(name \<mapsto> new_list @ [Annotation name value start' end']))
      | None \<Rightarrow> store(name \<mapsto> [Annotation name value start end]))"

text \<open>
  The loop of \<open>_delete_internal\<close> (lines 111-120), with the same three-way test in the
  source's order. The right remainder is built at line 120 as
  \<open>Annotation(name, a.value, a.end, end)\<close>.
\<close>

fun delete_loop :: "annotation list \<Rightarrow> string \<Rightarrow> int \<Rightarrow> int \<Rightarrow> annotation list" where
  "delete_loop [] name start end = []"
| "delete_loop (a # rest) name start end =
     (if start > ann_end a \<or> end < ann_start a
      then a # delete_loop rest name start end
      else if start < ann_start a \<and> end > ann_end a
      then delete_loop rest name start end
      else
        (if ann_start a < start then [Annotation name (ann_value a) (ann_start a) start] else [])
        @ (if ann_end a > end then [Annotation name (ann_value a) (ann_end a) end] else [])
        @ delete_loop rest name start end)"

text \<open>
  \<open>_delete_internal\<close> (lines 104-124). \<open>len(self._blip)\<close> is the length of the
  content of the blip that owns the store; it is the first argument here. A negative
  \<open>end\<close> has the length added to it once (line 108). An empty result deletes the key.
\<close>

definition delete_internal :: "int \<Rightarrow> store \<Rightarrow> string \<Rightarrow> int \<Rightarrow> int \<Rightarrow> store" where
  "delete_internal len_blip store name start end =
     (case store name of
        None \<Rightarrow> store
      | Some existing_list \<Rightarrow>
          (let end1 = (if end < 0 then len_blip + end else end);
               new_list = delete_loop existing_list name start end1
           in if new_list \<noteq> [] then store(name \<mapsto> new_list) else store(name := None)))"

text \<open>\<open>Annotations._shift\<close> (lines 126-129): every annotation of every name.\<close>

definition Annotations_shift :: "store \<Rightarrow> int \<Rightarrow> int \<Rightarrow> store" where
  "Annotations_shift store where inc =
     (\<lambda>name. map_option (map (\<lambda>annotation. Annotation_shift annotation where inc)) (store name))"

text \<open>\<open>Annotations.__getitem__\<close> for reading; a missing name reads as no annotation.\<close>

definition stored :: "store \<Rightarrow> string \<Rightarrow> annotation list" where
  "stored store name = (case store name of None \<Rightarrow> [] | Some l \<Rightarrow> l)"

section \<open>Elements\<close>

text \<open>
  Modelled from the spec: the class \<open>Element\<close> of the module \<open>element\<close>, which blip.py
  imports (line 19) and which is not among the sources. The spec gives an element a
  \<open>type\<close> discriminator and a map of properties from string keys to values.
  \<open>setattr(el, k, b)\<close> stores one property.
\<close>

record element =
  el_type :: string
  properties :: "(string \<times> string) list"

definition Element :: "string \<Rightarrow> (string \<times> string) list \<Rightarrow> element" where
  "Element type props = \<lparr>el_type = type, properties = props\<rparr>"

definition setattr :: "element \<Rightarrow> string \<Rightarrow> string \<Rightarrow> element" where
  "setattr el k b = el\<lparr>properties := AList.update k b (properties el)\<rparr>"

text \<open>
  Line 336 tests \<open>element\<close>, the module imported at line 19, and not the local variable
  \<open>el\<close> of line 335. A module object is true in Python.
\<close>

text \<open>
  Elements are objects with an identity. The same object may sit at several offsets:
  line 325 hands one and the same \<open>next\<close> to every hit when \<open>what\<close> has one entry,
  and line 357 stores it without copying; line 341 then changes the object in place,
  at every offset that holds it. A reference is a number, and the blip carries the
  objects its references point to.
\<close>

type_synonym ref = nat

definition element_module_truth :: bool where
  "element_module_truth = True"

section \<open>The blip (class Blip)\<close>

text \<open>
  Of a blip the model keeps what the mutations read and write: \<open>_content\<close>,
  \<open>_elements\<close> and \<open>_annotations\<close>, and the element objects the dict refers to
  (\<open>objects\<close>). \<open>_elements\<close> is a dict from offsets to (references to) elements.
  \<open>Blip._shift\<close> iterates over its items and assigns into a fresh dict, so the order of
  iteration decides which element survives when two items get the same new key. The
  dict is therefore an association list with distinct keys whose order is the order of
  iteration (in Python 2 the order of the hash table's slots, not of the keys);
  assignment is \<open>AList.update\<close>, lookup is \<open>map_of\<close>. Statements about a dict read it
  through \<open>map_of\<close> only.
\<close>

record blip =
  content :: string
  elements :: "(int \<times> ref) list"
  annotations :: store
  objects :: "ref \<Rightarrow> element"

definition len :: "blip \<Rightarrow> int" where
  "len b = int (length (content b))"

text \<open>The loop of \<open>Blip._shift\<close> (lines 612-616).\<close>

fun shift_elements :: "(int \<times> ref) list \<Rightarrow> int \<Rightarrow> int \<Rightarrow> (int \<times> ref) list \<Rightarrow> (int \<times> ref) list" where
  "shift_elements [] where inc new_elements = new_elements"
| "shift_elements ((idx, el) # items) where inc new_elements =
     shift_elements items where inc
       (AList.update (if idx \<ge> where then idx + inc else idx) el new_elements)"

definition Blip_shift :: "blip \<Rightarrow> int \<Rightarrow> int \<Rightarrow> blip" where
  "Blip_shift b where inc =
     b\<lparr>elements := shift_elements (elements b) where inc [],
       annotations := Annotations_shift (annotations b) where inc\<rparr>"

section \<open>Executing a mutation on one hit (BlipRefs._execute, lines 302-357)\<close>

datatype error = IndexError | ValueError | AttributeError

text \<open>
  What is inserted is a string or an element object, given by its reference (the test
  \<open>isinstance(next, basestring)\<close> of line 351). A mutation is the constant \<open>modify_how\<close> together with the value
  \<open>next\<close> that the hit receives, in the shape that kind of mutation reads it: a
  \<open>(key, value)\<close> pair for ANNOTATE, a name for CLEAR\_ANNOTATION, a dict of properties
  for UPDATE\_ELEMENT. The branch for an unknown \<open>modify_how\<close> (line 350) has no
  counterpart: the datatype has the seven kinds only.
\<close>

datatype item = Text string | Elem ref

datatype mutation =
    DELETE
  | REPLACE item
  | INSERT item
  | INSERT_AFTER item
  | ANNOTATE string string
  | CLEAR_ANNOTATION string
  | UPDATE_ELEMENT "(string \<times> string) list"

text \<open>
  Lines 303-308: \<open>start\<close> and \<open>end\<close> are reassigned in sequence. Inside the test
  \<open>start < 0\<close> an \<open>end\<close> equal to 0 has the length added as well.
\<close>

definition normalize_hit :: "int \<Rightarrow> int \<Rightarrow> int \<Rightarrow> int \<times> int" where
  "normalize_hit len_blip start end =
     (let start1 = (if start < 0 then start + len_blip else start);
          end1 = (if start < 0 \<and> end = 0 then end + len_blip else end);
          end2 = (if end1 < 0 then end1 + len_blip else end1)
      in (start1, end2))"

text \<open>Lines 309-313: the two IndexErrors.\<close>

definition validate_hit :: "int \<Rightarrow> int \<Rightarrow> int \<Rightarrow> error + int \<times> int" where
  "validate_hit len_blip start0 end0 =
     (case normalize_hit len_blip start0 end0 of
        (start, end) \<Rightarrow>
          if len_blip = 0
          then (if start \<noteq> 0 \<or> end \<noteq> 0 then Inl IndexError else Inr (start, end))
          else if start < 0 \<or> end < 1 \<or> start \<ge> len_blip \<or> end > len_blip
          then Inl IndexError
          else Inr (start, end))"

text \<open>
  Lines 351-357, after INSERT has set \<open>end = start\<close> and INSERT\_AFTER \<open>start = end\<close>.
  A validated offset is not negative, so a slice is \<open>take\<close> and \<open>drop\<close>.
\<close>

definition splice :: "blip \<Rightarrow> int \<Rightarrow> int \<Rightarrow> item \<Rightarrow> blip" where
  "splice b start end next =
     (case next of
        Text t \<Rightarrow>
          (let b1 = Blip_shift b end (int (length t) + start - end)
           in b1\<lparr>content := take (nat start) (content b1) @ t @ drop (nat end) (content b1)\<rparr>)
      | Elem e \<Rightarrow>
          (let b1 = Blip_shift b end (1 + start - end);
               b2 = b1\<lparr>content := take (nat start) (content b1) @ '' '' @ drop (nat end) (content b1)\<rparr>
           in b2\<lparr>elements := AList.update start e (elements b2)\<rparr>))"

text \<open>
  The body of the loop for one hit. The state is the blip and the list
  \<open>updated_elements\<close>; an exception is \<open>Inl\<close>, and then there is no new state: whatever
  earlier hits did stays done, this hit did nothing.
  In the UPDATE\_ELEMENT branch \<open>el\<close> is \<open>None\<close> when the dict has no element at
  \<open>start\<close>; the guard of line 336 does not read it, and line 339 then evaluates
  \<open>el.type\<close>, which on \<open>None\<close> raises AttributeError. When there is an element, the
  entry appended to \<open>updated_elements\<close> is a new object built from its type, and the
  loop of lines 340-341 sets the attributes of the object itself: the dict is not
  assigned to, and every offset that refers to the object sees the change.
\<close>

definition execute_hit ::
  "blip \<times> element list \<Rightarrow> mutation \<Rightarrow> int \<times> int \<Rightarrow> error + blip \<times> element list"
where
  "execute_hit state modify hit =
     (case state of (blip, updated_elements) \<Rightarrow>
      case hit of (start0, end0) \<Rightarrow>
      case validate_hit (len blip) start0 end0 of
        Inl err \<Rightarrow> Inl err
      | Inr (start, end) \<Rightarrow>
         (case modify of
            DELETE \<Rightarrow>
              (let b1 = blip\<lparr>elements :=
                          fold (\<lambda>i els. if map_of els i \<noteq> None then AList.delete i els else els)
                               [start..end - 1] (elements blip)\<rparr>;
                   b2 = Blip_shift b1 end (start - end)
               in Inr (b2\<lparr>content := take (nat start) (content b2) @ drop (nat end) (content b2)\<rparr>,
                       updated_elements))
          | ANNOTATE key value \<Rightarrow>
              Inr (blip\<lparr>annotations := add_internal (annotations blip) key value start end\<rparr>,
                   updated_elements)
          | CLEAR_ANNOTATION name \<Rightarrow>
              Inr (blip\<lparr>annotations :=
                          delete_internal (len blip) (annotations blip) name start end\<rparr>,
                   updated_elements)
          | UPDATE_ELEMENT next \<Rightarrow>
              (let el = map_of (elements blip) start
               in if \<not> element_module_truth then Inl ValueError
                  else (case el of
                          None \<Rightarrow> Inl AttributeError
                        | Some r \<Rightarrow>
                            Inr (blip\<lparr>objects :=
                                        (objects blip)
                                          (r := fold (\<lambda>(k, b) e. setattr e k b) next
                                                     (objects blip r))\<rparr>,
                                 updated_elements @ [Element (el_type (objects blip r)) next])))
          | INSERT next \<Rightarrow> Inr (splice blip start start next, updated_elements)
          | INSERT_AFTER next \<Rightarrow> Inr (splice blip end end next, updated_elements)
          | REPLACE next \<Rightarrow> Inr (splice blip start end next, updated_elements)))"

section \<open>Searching for text (BlipRefs._find, lines 260-268)\<close>







section \<open>Notions the specification uses\<close>


definition overlap :: "annotation \<Rightarrow> annotation \<Rightarrow> bool" where
  "overlap a b = (max (ann_start a) (ann_start b) < min (ann_end a) (ann_end b))"

fun pairwise_disjoint :: "annotation list \<Rightarrow> bool" where
  "pairwise_disjoint [] = True"
| "pairwise_disjoint (a # rest) = ((\<forall>b \<in> set rest. \<not> overlap a b) \<and> pairwise_disjoint rest)"

text \<open>
  The invariant of the specification for the annotations of one name: each has
  \<open>start \<le> end\<close>, and no two overlap.
\<close>

definition list_inv :: "annotation list \<Rightarrow> bool" where
  "list_inv l = ((\<forall>a \<in> set l. ann_start a \<le> ann_end a) \<and> pairwise_disjoint l)"

text \<open>
  The range check in the words of the specification: a negative \<open>start\<close> or \<open>end\<close> has
  the length added, then an empty document accepts \<open>(0, 0)\<close> only and any other
  document accepts exactly \<open>0 \<le> start\<close>, \<open>1 \<le> end\<close>, \<open>start < len\<close>, \<open>end \<le> len\<close>.
\<close>

definition spec_validate_range :: "int \<Rightarrow> int \<Rightarrow> int \<Rightarrow> bool" where
  "spec_validate_range len_blip start end =
     (let s = (if start < 0 then start + len_blip else start);
          e = (if end < 0 then end + len_blip else end)
      in if len_blip = 0 then s = 0 \<and> e = 0
         else 0 \<le> s \<and> 1 \<le> e \<and> s < len_blip \<and> e \<le> len_blip)"

text \<open>
  A text occurrence: \<open>content[i:i+len(what)] == what\<close> at an offset inside the content.
  Hits are successive from \<open>pos\<close> when each hit is the first occurrence at or after the
  end of the one before (at or after \<open>pos\<close> for the first): they go from left to right
  and do not overlap. A list of hits is the whole successive scan from \<open>pos\<close> when, in
  addition, no occurrence follows the last.
\<close>

definition occurs_at :: "string \<Rightarrow> string \<Rightarrow> int \<Rightarrow> bool" where
  "occurs_at blip_content what i =
     (0 \<le> i \<and> i + int (length what) \<le> int (length blip_content)
      \<and> take (length what) (drop (nat i) blip_content) = what)"

fun successive_hits :: "string \<Rightarrow> string \<Rightarrow> int \<Rightarrow> (int \<times> int) list \<Rightarrow> bool" where
  "successive_hits blip_content what pos [] = True"
| "successive_hits blip_content what pos ((s, e) # hits) =
     (pos \<le> s \<and> occurs_at blip_content what s \<and> e = s + int (length what)
      \<and> (\<forall>i \<in> {pos..<s}. \<not> occurs_at blip_content what i)
      \<and> successive_hits blip_content what e hits)"

fun successive :: "string \<Rightarrow> string \<Rightarrow> int \<Rightarrow> (int \<times> int) list \<Rightarrow> bool" where
  "successive blip_content what pos [] =
     (\<forall>i \<in> {pos..int (length blip_content)}. \<not> occurs_at blip_content what i)"
| "successive blip_content what pos ((s, e) # hits) =
     (pos \<le> s \<and> occurs_at blip_content what s \<and> e = s + int (length what)
      \<and> (\<forall>i \<in> {pos..<s}. \<not> occurs_at blip_content what i)
      \<and> successive blip_content what e hits)"

text \<open>
  The range check as the code performs it, in closed form: besides the two additions
  for negative values, an \<open>end\<close> equal to 0 becomes the length when \<open>start\<close> is negative.
\<close>

definition normalized_start :: "int \<Rightarrow> int \<Rightarrow> int" where
  "normalized_start len_blip start = (if start < 0 then start + len_blip else start)"

definition normalized_end :: "int \<Rightarrow> int \<Rightarrow> int \<Rightarrow> int" where
  "normalized_end len_blip start end =
     (if start < 0 \<and> end = 0 then len_blip else if end < 0 then end + len_blip else end)"

section \<open>Auxiliary facts\<close>

lemma Annotation_sel [simp]:
  "ann_name (Annotation n v s e) = n" "ann_value (Annotation n v s e) = v"
  "ann_start (Annotation n v s e) = s" "ann_end (Annotation n v s e) = e"
  by (simp_all add: Annotation_def)

lemma len_nonneg: "0 \<le> len b"
  by (simp add: len_def)

subsection \<open>Deleting clears the requested range\<close>




subsection \<open>Re-keying the elements\<close>

text \<open>A new key that no item is moved to keeps what the fresh dict held.\<close>

lemma shift_elements_other:
  "\<forall>(k, e) \<in> set items. (if k \<ge> w then k + inc else k) \<noteq> key \<Longrightarrow>
   map_of (shift_elements items w inc acc) key = map_of acc key"
  by (induction items arbitrary: acc) (auto simp: update_conv')

lemma shift_elements_placed:
  "(idx, el) \<in> set items \<Longrightarrow> distinct (map fst items) \<Longrightarrow>
   \<forall>k \<in> fst ` set items. k \<noteq> idx \<longrightarrow>
      (if k \<ge> w then k + inc else k) \<noteq> (if idx \<ge> w then idx + inc else idx) \<Longrightarrow>
   map_of (shift_elements items w inc acc) (if idx \<ge> w then idx + inc else idx) = Some el"
proof (induction items arbitrary: acc)
  case Nil
  then show ?case by simp
next
  case (Cons item items)
  obtain k e where item: "item = (k, e)" by (cases item)
  show ?case
  proof (cases "k = idx")
    case True
    with Cons.prems item have el: "e = el" and notin: "idx \<notin> fst ` set items"
      by (auto simp: image_iff)
    have "\<forall>(k', e') \<in> set items.
            (if k' \<ge> w then k' + inc else k') \<noteq> (if idx \<ge> w then idx + inc else idx)"
    proof (clarify)
      fix k' e'
      assume mem: "(k', e') \<in> set items"
        and eq: "(if k' \<ge> w then k' + inc else k') = (if idx \<ge> w then idx + inc else idx)"
      from mem have in_keys: "k' \<in> fst ` set items" by force
      with notin have "k' \<noteq> idx" by auto
      with in_keys Cons.prems(3) eq show False by auto
    qed
    from shift_elements_other[OF this] True el item show ?thesis
      by (simp add: update_conv')
  next
    case False
    with Cons.prems item have "(idx, el) \<in> set items" "distinct (map fst items)"
      "\<forall>k \<in> fst ` set items. k \<noteq> idx \<longrightarrow>
         (if k \<ge> w then k + inc else k) \<noteq> (if idx \<ge> w then idx + inc else idx)" by auto
    from Cons.IH[OF this] item show ?thesis by simp
  qed
qed

lemma shift_elements_fresh:
  "map_of (shift_elements items w inc acc) key = Some el \<Longrightarrow>
   (\<exists>idx. (idx, el) \<in> set items \<and> key = (if idx \<ge> w then idx + inc else idx))
   \<or> map_of acc key = Some el"
proof (induction items arbitrary: acc)
  case Nil
  then show ?case by simp
next
  case (Cons item items)
  obtain k e where item: "item = (k, e)" by (cases item)
  from Cons.prems item
  have "map_of (shift_elements items w inc
                  (AList.update (if k \<ge> w then k + inc else k) e acc)) key = Some el"
    by simp
  from Cons.IH[OF this] item show ?case
    by (auto simp: update_conv' split: if_splits)
qed

text \<open>
  Read through \<open>map_of\<close>, the new dict is the list of the re-keyed items with the last
  assignment first.
\<close>

lemma shift_elements_map_of:
  "map_of (shift_elements items w inc acc)
     = map_of (rev (map (\<lambda>(i, e). (if i \<ge> w then i + inc else i, e)) items) @ acc)"
proof (induction items arbitrary: acc)
  case Nil
  show ?case by simp
next
  case (Cons item items)
  obtain k e where item: "item = (k, e)" by (cases item)
  have "map_of (AList.update (if k \<ge> w then k + inc else k) e acc)
          = map_of ((if k \<ge> w then k + inc else k, e) # acc)"
    by (simp add: update_conv')
  then show ?case
    by (simp add: item Cons.IH map_of_append del: map_of.simps)
qed

subsection \<open>What \<open>str_find\<close> returns\<close>





subsection \<open>The search loop ends when the pattern is not empty\<close>


subsection \<open>The hits a consumer receives\<close>

lemma successive_imp_hits:
  "successive c w pos hs \<Longrightarrow> successive_hits c w pos hs"
  by (induction c w pos hs rule: successive.induct) auto







section \<open>The claims\<close>

subsection \<open>Splitting on add\<close>

text \<open>
  Claim C1. The specification asks for the right remainder \<open>(end, e.end)\<close>, lower bound
  first: adding \<open>(n, b, 4, 6)\<close> to a store holding only \<open>(n, a, 0, 10)\<close> should leave
  \<open>(n, a, 0, 4)\<close>, \<open>(n, a, 6, 10)\<close> and \<open>(n, b, 4, 6)\<close>. The code passes \<open>existing.end\<close> as
  the start and \<open>end\<close> as the end of the remainder (lines 97-98), so what it stores in
  the second place is \<open>(n, a, 10, 6)\<close>, with the bounds swapped. This theorem is the run
  of the code on that input.
\<close>

theorem add_internal_right_remainder_swapped:
  "add_internal [n \<mapsto> [Annotation n ''a'' 0 10]] n ''b'' 4 6
     = [n \<mapsto> [Annotation n ''a'' 0 4, Annotation n ''a'' 10 6, Annotation n ''b'' 4 6]]"
  by (simp add: add_internal_def)

subsection \<open>Clipping on remove\<close>

text \<open>
  Claim C2. The specification asks for the right remainder \<open>(end, a.end)\<close>:
  \<open>remove(n, 2, 8)\<close> on a store holding only \<open>(n, v, 0, 10)\<close> should leave \<open>(n, v, 0, 2)\<close>
  and \<open>(n, v, 8, 10)\<close>. Line 120 builds \<open>Annotation(name, a.value, a.end, end)\<close>, so the
  second piece the code stores is \<open>(n, v, 10, 8)\<close>, whatever the length of the document.
  This theorem is the run of the code on that input.
\<close>

theorem delete_internal_right_remainder_swapped:
  "delete_internal len_blip [n \<mapsto> [Annotation n v 0 10]] n 2 8
     = [n \<mapsto> [Annotation n v 0 2, Annotation n v 10 8]]"
  by (simp add: delete_internal_def)

subsection \<open>A negative end on remove\<close>




subsection \<open>UPDATE\_ELEMENT where there is no element\<close>

text \<open>
  Claim C4. The specification asks for a lookup error when no element sits at
  \<open>start\<close>, and the code has the statement for it: line 337 raises
  \<open>ValueError('No element found at index ...')\<close>. Its guard at line 336 tests the module
  \<open>element\<close> and not the variable \<open>el\<close>, so it never fires. For every blip and every hit
  that passes the range check with no element at the normalized \<open>start\<close>, the hit ends
  in the AttributeError of \<open>el.type\<close> on \<open>None\<close> at line 339. That statement comes before
  any assignment to the blip, so the hit leaves content, elements and annotations as
  they were.
\<close>

theorem update_element_missing_raises_AttributeError:
  "validate_hit (len blip) start0 end0 = Inr (start, end) \<and> map_of (elements blip) start = None
   \<longrightarrow> execute_hit (blip, updated_elements) (UPDATE_ELEMENT next) (start0, end0)
         = Inl AttributeError"
  by (simp add: execute_hit_def element_module_truth_def)

theorem update_element_missing_raises_AttributeError_witness:
  "execute_hit (\<lparr>content = ''abc'', elements = [], annotations = Map.empty,
               objects = (\<lambda>r. Element ''gadget'' [])\<rparr>, [])
     (UPDATE_ELEMENT [(''url'', ''x'')]) (0, 1) = Inl AttributeError"
  using update_element_missing_raises_AttributeError
          [of "\<lparr>content = ''abc'', elements = [], annotations = Map.empty,
               objects = (\<lambda>r. Element ''gadget'' [])\<rparr>" 0 1 0 1
              "[]" "[(''url'', ''x'')]"]
  by (simp add: validate_hit_def normalize_hit_def len_def)

subsection \<open>The invariant of the store\<close>

text \<open>
  Claim C5. The specification's invariant: after an add or a remove on a store that
  satisfies it, the annotations of a name have \<open>start \<le> end\<close> and do not overlap. The
  list holding only \<open>(n, a, 0, 10)\<close> satisfies it. After adding \<open>(n, b, 4, 6)\<close> the code
  has stored \<open>(n, a, 10, 6)\<close>, and after \<open>remove(n, 2, 8)\<close> it has stored \<open>(n, a, 10, 8)\<close>:
  in both the start is above the end, and the invariant is lost. Both come from the
  swapped arguments of the right remainder (lines 97-98 and line 120).
\<close>

theorem store_invariant_lost:
  "list_inv [Annotation n ''a'' 0 10]
   \<and> \<not> list_inv (stored (add_internal [n \<mapsto> [Annotation n ''a'' 0 10]] n ''b'' 4 6) n)
   \<and> \<not> list_inv (stored (delete_internal len_blip [n \<mapsto> [Annotation n ''a'' 0 10]] n 2 8) n)"
  by (simp add: list_inv_def add_internal_def delete_internal_def stored_def)

theorem store_invariant_lost_witness:
  "list_inv [Annotation ''n'' ''a'' 0 10]
   \<and> \<not> list_inv (stored (add_internal [''n'' \<mapsto> [Annotation ''n'' ''a'' 0 10]] ''n'' ''b'' 4 6) ''n'')
   \<and> \<not> list_inv (stored (delete_internal 10 [''n'' \<mapsto> [Annotation ''n'' ''a'' 0 10]] ''n'' 2 8) ''n'')"
  using store_invariant_lost[of "''n''" 10] by simp

subsection \<open>Shifting\<close>

text \<open>
  Claim C6, as the code has it. \<open>shift(where, inc)\<close> builds a fresh dict: it assigns
  every element at an offset \<open>idx \<ge> where\<close> to the key \<open>idx + inc\<close> (an element
  exactly at the shift point moves) and every other element to its old key, and the
  new dict holds nothing else. An element at \<open>idx \<ge> where\<close> is found at \<open>idx + inc\<close>
  afterwards provided no element below \<open>where\<close> sits at \<open>idx + inc\<close> (none does when
  \<open>inc \<ge> 0\<close>), and an element at \<open>idx < where\<close> is found at \<open>idx\<close> afterwards provided
  no element at or after \<open>where\<close> is moved onto \<open>idx\<close>: the dict has one value per key,
  and where two elements get the same key the one iterated later stays (the new dict
  reads as the list of the re-keyed items, last assignment first).
  The annotations of every name are shifted one by one; a boundary of an annotation
  moves by \<open>inc\<close> exactly when it is strictly greater than \<open>where\<close> (a boundary
  exactly at the shift point does not move), and name and value stay. The content and
  the element objects are not touched.
\<close>

theorem shift_policy:
  "((idx, el) \<in> set (elements b) \<and> distinct (map fst (elements b)) \<and> idx \<ge> where
      \<and> (\<forall>k \<in> fst ` set (elements b). k < where \<longrightarrow> k \<noteq> idx + inc)
     \<longrightarrow> map_of (elements (Blip_shift b where inc)) (idx + inc) = Some el)
   \<and> ((idx, el) \<in> set (elements b) \<and> distinct (map fst (elements b)) \<and> idx < where
      \<and> (\<forall>k \<in> fst ` set (elements b). k \<ge> where \<longrightarrow> k + inc \<noteq> idx)
     \<longrightarrow> map_of (elements (Blip_shift b where inc)) idx = Some el)
   \<and> (map_of (elements (Blip_shift b where inc)) key = Some el
     \<longrightarrow> (\<exists>i. (i, el) \<in> set (elements b) \<and> key = (if i \<ge> where then i + inc else i)))
   \<and> annotations (Blip_shift b where inc) name
       = map_option (map (\<lambda>a. Annotation_shift a where inc)) (annotations b name)
   \<and> ann_start (Annotation_shift a where inc)
       = (if ann_start a > where then ann_start a + inc else ann_start a)
   \<and> ann_end (Annotation_shift a where inc)
       = (if ann_end a > where then ann_end a + inc else ann_end a)
   \<and> ann_name (Annotation_shift a where inc) = ann_name a
   \<and> ann_value (Annotation_shift a where inc) = ann_value a
   \<and> map_of (elements (Blip_shift b where inc))
       = map_of (rev (map (\<lambda>(i, e). (if i \<ge> where then i + inc else i, e)) (elements b)))
   \<and> content (Blip_shift b where inc) = content b
   \<and> objects (Blip_shift b where inc) = objects b"
proof -
  have moved: "map_of (elements (Blip_shift b where inc)) (idx + inc) = Some el"
    if "(idx, el) \<in> set (elements b)" "distinct (map fst (elements b))" "idx \<ge> where"
       "\<forall>k \<in> fst ` set (elements b). k < where \<longrightarrow> k \<noteq> idx + inc"
  proof -
    have "\<forall>k \<in> fst ` set (elements b). k \<noteq> idx \<longrightarrow>
            (if k \<ge> where then k + inc else k) \<noteq> (if idx \<ge> where then idx + inc else idx)"
      using that(3,4) by auto
    from shift_elements_placed[OF that(1,2) this, of "[]"] that(3) show ?thesis
      by (simp add: Blip_shift_def)
  qed
  have kept: "map_of (elements (Blip_shift b where inc)) idx = Some el"
    if "(idx, el) \<in> set (elements b)" "distinct (map fst (elements b))" "idx < where"
       "\<forall>k \<in> fst ` set (elements b). k \<ge> where \<longrightarrow> k + inc \<noteq> idx"
  proof -
    have "\<forall>k \<in> fst ` set (elements b). k \<noteq> idx \<longrightarrow>
            (if k \<ge> where then k + inc else k) \<noteq> (if idx \<ge> where then idx + inc else idx)"
      using that(3,4) by auto
    from shift_elements_placed[OF that(1,2) this, of "[]"] that(3) show ?thesis
      by (simp add: Blip_shift_def)
  qed
  have fresh: "\<exists>i. (i, el) \<in> set (elements b) \<and> key = (if i \<ge> where then i + inc else i)"
    if "map_of (elements (Blip_shift b where inc)) key = Some el"
    using shift_elements_fresh[of "elements b" "where" inc "[]" key el] that
    by (simp add: Blip_shift_def)
  have anns: "annotations (Blip_shift b where inc) name
       = map_option (map (\<lambda>a. Annotation_shift a where inc)) (annotations b name)"
    by (simp add: Blip_shift_def Annotations_shift_def)
  have bounds: "ann_start (Annotation_shift a where inc)
       = (if ann_start a > where then ann_start a + inc else ann_start a)"
    "ann_end (Annotation_shift a where inc)
       = (if ann_end a > where then ann_end a + inc else ann_end a)"
    "ann_name (Annotation_shift a where inc) = ann_name a"
    "ann_value (Annotation_shift a where inc) = ann_value a"
    by (simp_all add: Annotation_shift_def Let_def)
  have table: "map_of (elements (Blip_shift b where inc))
       = map_of (rev (map (\<lambda>(i, e). (if i \<ge> where then i + inc else i, e)) (elements b)))"
    by (simp add: Blip_shift_def shift_elements_map_of)
  have rest: "content (Blip_shift b where inc) = content b"
    "objects (Blip_shift b where inc) = objects b"
    by (simp_all add: Blip_shift_def)
  from moved kept fresh anns bounds table rest show ?thesis by blast
qed

text \<open>
  With elements at the offsets 1 and 4, \<open>shift(4, 3)\<close> moves the element of offset 4,
  which is exactly at the shift point, to offset 7, leaves the element of offset 1
  where it is and leaves nothing at offset 4; an annotation \<open>(n, v, 4, 6)\<close> keeps its
  start 4 and has its end moved to 9.
\<close>

theorem shift_policy_witness:
  "map_of (elements (Blip_shift
      \<lparr>content = ''a cd '', elements = [(1, 0), (4, 1)], annotations = Map.empty,
       objects = (\<lambda>r. Element ''gadget'' [])\<rparr> 4 3)) 7 = Some 1
   \<and> map_of (elements (Blip_shift
      \<lparr>content = ''a cd '', elements = [(1, 0), (4, 1)], annotations = Map.empty,
       objects = (\<lambda>r. Element ''gadget'' [])\<rparr> 4 3)) 1 = Some 0
   \<and> map_of (elements (Blip_shift
      \<lparr>content = ''a cd '', elements = [(1, 0), (4, 1)], annotations = Map.empty,
       objects = (\<lambda>r. Element ''gadget'' [])\<rparr> 4 3)) 4 \<noteq> Some 1
   \<and> ann_start (Annotation_shift (Annotation ''n'' ''v'' 4 6) 4 3) = 4
   \<and> ann_end (Annotation_shift (Annotation ''n'' ''v'' 4 6) 4 3) = 9"
  using shift_policy[of 4 1
      "\<lparr>content = ''a cd '', elements = [(1, 0), (4, 1)], annotations = Map.empty,
        objects = (\<lambda>r. Element ''gadget'' [])\<rparr>"
      4 3 4 "''n''" "Annotation ''n'' ''v'' 4 6"]
    shift_policy[of 1 0
      "\<lparr>content = ''a cd '', elements = [(1, 0), (4, 1)], annotations = Map.empty,
        objects = (\<lambda>r. Element ''gadget'' [])\<rparr>"
      4 3 4 "''n''" "Annotation ''n'' ''v'' 4 6"]
  by auto

text \<open>
  The claim as written fails when a moved element lands on a key that an element
  below the shift point holds and that element is iterated later. A dict with the
  keys 8 and 1 iterates 8 first in Python 2 (the slot of a small integer is its value
  modulo the size 8 of the table). \<open>shift(8, -7)\<close>, which replacing the range \<open>(1, 8)\<close>
  by the empty string performs, assigns the element of offset 8 (object 0) to key 1
  and then the element of offset 1 (object 1) to key 1: the element that was at
  offset 8, at the shift point, is not at offset \<open>8 - 7\<close> afterwards.
\<close>

theorem shift_collision_counterexample:
  "map_of (elements \<lparr>content = ''0123456789'', elements = [(8, 0), (1, 1)],
                     annotations = Map.empty, objects = (\<lambda>r. Element ''gadget'' [])\<rparr>) 8
     = Some 0
   \<and> (8::int) \<ge> 8
   \<and> map_of (elements (Blip_shift \<lparr>content = ''0123456789'', elements = [(8, 0), (1, 1)],
                     annotations = Map.empty, objects = (\<lambda>r. Element ''gadget'' [])\<rparr>
                8 (-7))) (8 + (-7)) = Some 1
   \<and> Some (1::nat) \<noteq> Some 0"
  by (simp add: Blip_shift_def)

subsection \<open>The range check of a hit\<close>

text \<open>
  Claim C7, as the code has it. A negative \<open>start\<close> or \<open>end\<close> has the length of the
  content added, and when \<open>start\<close> is negative an \<open>end\<close> equal to 0 becomes the length as
  well. Then an empty document accepts \<open>(0, 0)\<close> only, and any other document raises
  the out-of-range error exactly when not
  (\<open>0 \<le> start\<close>, \<open>1 \<le> end\<close>, \<open>start < len\<close>, \<open>end \<le> len\<close>) for the normalized pair; an
  accepted hit goes on with the normalized pair.
\<close>

theorem validate_hit_closed_form:
  "validate_hit (len b) start end =
     (if (if len b = 0
          then normalized_start (len b) start = 0 \<and> normalized_end (len b) start end = 0
          else 0 \<le> normalized_start (len b) start \<and> 1 \<le> normalized_end (len b) start end
             \<and> normalized_start (len b) start < len b
             \<and> normalized_end (len b) start end \<le> len b)
      then Inr (normalized_start (len b) start, normalized_end (len b) start end)
      else Inl IndexError)"
  using len_nonneg[of b]
  by (auto simp: validate_hit_def normalize_hit_def normalized_start_def normalized_end_def Let_def)

theorem validate_hit_closed_form_witness:
  "validate_hit (len \<lparr>content = ''banana'', elements = [], annotations = Map.empty,
                        objects = (\<lambda>r. Element ''gadget'' [])\<rparr>) (-2) 0
     = Inr (4, 6)
   \<and> validate_hit (len \<lparr>content = ''banana'', elements = [], annotations = Map.empty,
                        objects = (\<lambda>r. Element ''gadget'' [])\<rparr>) 2 7
     = Inl IndexError
   \<and> validate_hit (len \<lparr>content = [], elements = [], annotations = Map.empty,
                        objects = (\<lambda>r. Element ''gadget'' [])\<rparr>) 0 0
     = Inr (0, 0)"
  using validate_hit_closed_form
          [of "\<lparr>content = ''banana'', elements = [], annotations = Map.empty,
                        objects = (\<lambda>r. Element ''gadget'' [])\<rparr>" "-2" 0]
        validate_hit_closed_form
          [of "\<lparr>content = ''banana'', elements = [], annotations = Map.empty,
                        objects = (\<lambda>r. Element ''gadget'' [])\<rparr>" 2 7]
        validate_hit_closed_form
          [of "\<lparr>content = [], elements = [], annotations = Map.empty,
                        objects = (\<lambda>r. Element ''gadget'' [])\<rparr>" 0 0]
  by (simp add: normalized_start_def normalized_end_def len_def)

text \<open>
  The claim as written fails at the hit \<open>(-1, 0)\<close> on a document of length 3: adding
  the length to the negative values only gives \<open>(2, 0)\<close>, which the check refuses
  (\<open>end < 1\<close>), while the code turns the hit into \<open>(2, 3)\<close> and accepts it.
\<close>

theorem validate_hit_end_zero_counterexample:
  "validate_hit 3 (-1) 0 = Inr (2, 3) \<and> \<not> spec_validate_range 3 (-1) 0"
  by (simp add: validate_hit_def normalize_hit_def spec_validate_range_def)

subsection \<open>Text search\<close>



subsection \<open>Merging on add\<close>

text \<open>
  Claim C9. Adding two annotations of one name and one value to an empty store is
  commutative in what is stored: for all ranges \<open>(s1, e1)\<close> and \<open>(s2, e2)\<close> the two
  orders store the same set of annotations under the name. When the ranges overlap or
  touch (\<open>s2 \<le> e1\<close> and \<open>s1 \<le> e2\<close>), either order stores the single annotation
  \<open>(n, v, min s1 s2, max e1 e2)\<close> and nothing else. In particular adding \<open>(n, v, 0, 5)\<close>
  and then \<open>(n, v, 3, 8)\<close> leaves the single annotation \<open>(n, v, 0, 8)\<close>, and so does
  adding the two in the other order.
\<close>

theorem add_internal_merge_commutes:
  "set (stored (add_internal (add_internal Map.empty n v s1 e1) n v s2 e2) n)
     = set (stored (add_internal (add_internal Map.empty n v s2 e2) n v s1 e1) n)
   \<and> (s2 \<le> e1 \<and> s1 \<le> e2 \<longrightarrow>
        add_internal (add_internal Map.empty n v s1 e1) n v s2 e2
          = [n \<mapsto> [Annotation n v (min s1 s2) (max e1 e2)]]
        \<and> add_internal (add_internal Map.empty n v s2 e2) n v s1 e1
          = [n \<mapsto> [Annotation n v (min s1 s2) (max e1 e2)]])
   \<and> add_internal (add_internal Map.empty n v 0 5) n v 3 8 = [n \<mapsto> [Annotation n v 0 8]]
   \<and> add_internal (add_internal Map.empty n v 3 8) n v 0 5 = [n \<mapsto> [Annotation n v 0 8]]"
  by (auto simp: add_internal_def stored_def min_def max_def)

text \<open>
  Touching ranges \<open>(1, 4)\<close> and \<open>(4, 9)\<close> merge into \<open>(1, 9)\<close> in both orders; the
  disjoint ranges \<open>(0, 2)\<close> and \<open>(5, 7)\<close> are both stored, in either order.
\<close>

theorem add_internal_merge_commutes_witness:
  "add_internal (add_internal Map.empty ''n'' ''v'' 1 4) ''n'' ''v'' 4 9
     = [''n'' \<mapsto> [Annotation ''n'' ''v'' 1 9]]
   \<and> add_internal (add_internal Map.empty ''n'' ''v'' 4 9) ''n'' ''v'' 1 4
     = [''n'' \<mapsto> [Annotation ''n'' ''v'' 1 9]]
   \<and> set (stored (add_internal (add_internal Map.empty ''n'' ''v'' 0 2) ''n'' ''v'' 5 7) ''n'')
     = set (stored (add_internal (add_internal Map.empty ''n'' ''v'' 5 7) ''n'' ''v'' 0 2) ''n'')"
  using add_internal_merge_commutes[of "''n''" "''v''" 1 4 4 9]
        add_internal_merge_commutes[of "''n''" "''v''" 0 2 5 7]
  by simp

text \<open>
  Claim C10. Annotations of one value that only touch are merged: when the store
  holds the single annotation \<open>(name, v, a, b)\<close> under \<open>name\<close> and \<open>a \<le> b \<le> c\<close>, adding
  \<open>(name, v, b, c)\<close> leaves the single annotation \<open>(name, v, a, c)\<close> under \<open>name\<close> and
  every other name as it was. The test of line 84 is strict on both sides, so
  \<open>start = existing.end\<close> counts as an overlap.
\<close>

theorem add_internal_merges_touching:
  "store name = Some [Annotation name v a b] \<Longrightarrow> a \<le> b \<Longrightarrow> b \<le> c \<Longrightarrow>
   add_internal store name v b c = store(name \<mapsto> [Annotation name v a c])"
  by (simp add: add_internal_def)

theorem add_internal_merges_touching_witness:
  "add_internal [''n'' \<mapsto> [Annotation ''n'' ''v'' 0 3]] ''n'' ''v'' 3 7
     = [''n'' \<mapsto> [Annotation ''n'' ''v'' 0 7]]"
  using add_internal_merges_touching
          [of "[''n'' \<mapsto> [Annotation ''n'' ''v'' 0 3]]" "''n''" "''v''" 0 3 7]
  by simp

end
